theory Spec2Isabelle
  imports Main
begin

section \<open>Data model of \<open>src/main.ts\<close>\<close>

text \<open>
  The interfaces \<open>FilePath\<close>, \<open>RecentFileInfo\<close> and \<open>RecentFilesData\<close> are records.
  \<open>RecentFileInfo\<close> has the two fields of \<open>FilePath\<close> and \<open>mtime\<close>, so it is the
  extension of \<open>FilePath\<close> (TypeScript's structural subtyping: \<open>shouldAddFile\<close> takes a
  \<open>FilePath\<close> and is applied to \<open>RecentFileInfo\<close> values).

  \<open>mtime\<close> and \<open>maxLength\<close> are JavaScript numbers holding integers (\<open>stat.mtime\<close> is a
  millisecond time stamp, \<open>maxLength\<close> comes from \<open>parseInt\<close>): they are \<open>int\<close>.
  \<open>maxLength\<close> is \<open>int option\<close>: \<open>None\<close> stands for the values that are not a number at
  all, \<open>null\<close> (the value in \<open>DEFAULT_DATA\<close>) and \<open>NaN\<close> (what \<open>parseInt\<close> gives
  on an empty field); both are falsy, and both are written as \<open>null\<close> by JSON.
\<close>

record FilePath =
  path :: string
  basename :: string

record RecentFileInfo = FilePath +
  mtime :: int

record RecentFilesData =
  recentFiles :: "RecentFileInfo list"
  omittedPaths :: "string list"
  maxLength :: "int option"
  openType :: string

text \<open>
  The host's objects: a \<open>TAbstractFile\<close> (file or folder) has a \<open>path\<close> and a \<open>name\<close>;
  a \<open>TFile\<close> has also a \<open>basename\<close> and \<open>stat.mtime\<close>. The fields carry the prefix
  \<open>file_\<close> to keep them apart from those of \<open>FilePath\<close>.
\<close>

record TAbstractFile =
  file_path :: string
  file_name :: string

record TFile = TAbstractFile +
  file_basename :: string
  stat_mtime :: int

text \<open>
  What a handler reads from the host when it runs: the files of the vault
  (\<open>app.vault.getFiles()\<close>), the lookup \<open>app.vault.getAbstractFileByPath\<close> (\<open>None\<close> is
  \<open>null\<close>) and whether the most recent leaf is pinned
  (\<open>getMostRecentLeaf().getViewState().pinned\<close>).
\<close>

record host =
  getFiles :: "TFile list"
  getAbstractFileByPath :: "string \<Rightarrow> TAbstractFile option"
  pinned :: bool

text \<open>
  What a handler does to the host, in the order it does it: the enumeration of the vault,
  a write of the plugin's data (\<open>Plugin.saveData\<close>, with the data as written), a redraw
  of the view, a \<open>Notice\<close> shown to the user, and a file opened in a leaf. Output to the
  developer console (\<open>console.log\<close>, \<open>console.error\<close>) is not recorded.
\<close>

datatype leaf = MostRecentLeaf | SplitLeaf | WindowLeaf | TabLeaf

datatype effect =
  Enumerate
  | SaveData RecentFilesData
  | Redraw
  | Notice string
  | OpenFile leaf TAbstractFile

text \<open>
  The plugin and its view share one \<open>RecentFilesData\<close> object (\<open>loadData\<close> assigns it to
  \<open>plugin.data\<close>, and the view's constructor receives the same reference), so the state
  has that one object and the effects so far. It has also whether \<open>plugin.view\<close> is
  set: the field is declared with the type \<open>RecentFilesListView\<close>, but the only
  assignment to it is in the factory that \<open>onload\<close> gives to \<open>registerView\<close>, so it
  is \<open>undefined\<close> from \<open>onload\<close> until the host builds the view.
\<close>

record state =
  data :: RecentFilesData
  view :: bool
  trace :: "effect list"

text \<open>
  A call of a method on \<open>undefined\<close> throws a \<open>TypeError\<close>. A handler that can throw
  gives \<open>Inr\<close> of the state when it returns and \<open>Inl\<close> of the error when it throws,
  with the state as it is at the throw: what the handler assigned before stays assigned.
\<close>

datatype error = TypeError

type_synonym outcome = "(error \<times> state) + state"

section \<open>The functions\<close>

definition defaultMaxLength :: int where
  "defaultMaxLength = 40"

definition DEFAULT_DATA :: RecentFilesData where
  "DEFAULT_DATA =
     \<lparr>recentFiles = [], omittedPaths = [], maxLength = None, openType = ''tab''\<rparr>"

definition sortFunc :: "RecentFileInfo \<Rightarrow> RecentFileInfo \<Rightarrow> int" where
  "sortFunc a b =
     (if mtime a > mtime b then - 1
      else if mtime a < mtime b then 1
      else 0)"

text \<open>
  \<open>Array.prototype.sort(compare)\<close> is a stable sort (ECMAScript 2019): an insertion sort
  that places an element before the first one it does not come after. Elements are
  inserted from the last to the first, so of two elements that compare equal the one
  that was first stays first.
\<close>

fun insert_by :: "('a \<Rightarrow> 'a \<Rightarrow> int) \<Rightarrow> 'a \<Rightarrow> 'a list \<Rightarrow> 'a list" where
  "insert_by cmp x [] = [x]"
| "insert_by cmp x (y # ys) =
     (if cmp x y \<le> 0 then x # y # ys else y # insert_by cmp x ys)"

definition array_sort :: "('a \<Rightarrow> 'a \<Rightarrow> int) \<Rightarrow> 'a list \<Rightarrow> 'a list" where
  "array_sort cmp xs = foldr (insert_by cmp) xs []"

text \<open>
  \<open>Array.prototype.slice(0, end)\<close>: a negative \<open>end\<close> counts from the end of the array,
  and the result is empty when that falls before the start.
\<close>

definition slice0 :: "'a list \<Rightarrow> int \<Rightarrow> 'a list" where
  "slice0 xs e =
     (let len = int (length xs);
          final = (if e < 0 then max (len + e) 0 else min e len)
      in take (nat final) xs)"

text \<open>\<open>this.data.maxLength || defaultMaxLength\<close>: \<open>null\<close>, \<open>NaN\<close> and \<open>0\<close> are falsy.\<close>

definition maxLength_or_default :: "RecentFilesData \<Rightarrow> int" where
  "maxLength_or_default d =
     (case maxLength d of
        None \<Rightarrow> defaultMaxLength
      | Some n \<Rightarrow> if n = 0 then defaultMaxLength else n)"

definition saveData :: "state \<Rightarrow> state" where
  "saveData s = s\<lparr>trace := trace s @ [SaveData (data s)]\<rparr>"

definition redraw :: "state \<Rightarrow> state" where
  "redraw s = s\<lparr>trace := trace s @ [Redraw]\<rparr>"

definition file_info :: "TFile \<Rightarrow> RecentFileInfo" where
  "file_info file =
     \<lparr>path = file_path file, basename = file_basename file, mtime = stat_mtime file\<rparr>"

definition updateData :: "host \<Rightarrow> state \<Rightarrow> state" where
  "updateData h s =
     (let s1 = s\<lparr>trace := trace s @ [Enumerate]\<rparr>;
          recentFiles0 = map file_info (getFiles h);
          sorted_files = array_sort sortFunc recentFiles0;
          d = (data s1)\<lparr>recentFiles := slice0 sorted_files (maxLength_or_default (data s1))\<rparr>
      in saveData (s1\<lparr>data := d\<rparr>))"

text \<open>
  The handler of \<open>editor-change\<close>. \<open>info?.file\<close> is the edited file, or \<open>null\<close>; the
  test of \<open>recentFiles[0]\<close> is behind the test of the length.
\<close>

definition update :: "host \<Rightarrow> TFile option \<Rightarrow> state \<Rightarrow> state" where
  "update h info_file s =
     (if (case info_file of
            None \<Rightarrow> False
          | Some file \<Rightarrow>
              (case recentFiles (data s) of
                 [] \<Rightarrow> False
               | first # _ \<Rightarrow> file_path file = path first))
      then s
      else redraw (updateData h s))"

text \<open>
  \<open>new RegExp(pattern)\<close> is the host's: \<open>RegExp pattern\<close> is \<open>None\<close> when the
  constructor throws a \<open>SyntaxError\<close>, and otherwise \<open>Some\<close> of the compiled
  expression's \<open>test\<close>. The \<open>try\<close>/\<open>catch\<close> of \<open>fileMatchesRegex\<close> is the case
  distinction.
\<close>

type_synonym regexp = "string \<Rightarrow> (string \<Rightarrow> bool) option"

definition fileMatchesRegex :: "regexp \<Rightarrow> 'a FilePath_scheme \<Rightarrow> string \<Rightarrow> bool" where
  "fileMatchesRegex RegExp file pattern =
     (case RegExp pattern of
        Some test \<Rightarrow> test (path file)
      | None \<Rightarrow> False)"

definition shouldAddFile :: "regexp \<Rightarrow> RecentFilesData \<Rightarrow> 'a FilePath_scheme \<Rightarrow> bool" where
  "shouldAddFile RegExp d file =
     (let patterns = filter (\<lambda>p. length p > 0) (omittedPaths d)
      in \<not> list_ex (fileMatchesRegex RegExp file) patterns)"

definition pruneOmittedFiles :: "regexp \<Rightarrow> state \<Rightarrow> state" where
  "pruneOmittedFiles RegExp s =
     saveData (s\<lparr>data := (data s)\<lparr>recentFiles :=
       filter (shouldAddFile RegExp (data s)) (recentFiles (data s))\<rparr>\<rparr>)"

text \<open>
  The view's \<open>focusFile\<close>. When the path resolves, the file is opened: in the most
  recent leaf, or in a new leaf of the kind \<open>openType\<close> names when a split is asked for
  or the most recent leaf is pinned. When it does not, the user is told, the entry is
  removed, the data is saved (the call is not awaited, but \<open>Plugin.saveData\<close> is
  entered before \<open>redraw\<close>) and the view is redrawn.
\<close>

definition focusFile :: "host \<Rightarrow> RecentFileInfo \<Rightarrow> bool \<Rightarrow> state \<Rightarrow> state" where
  "focusFile h file shouldSplit s =
     (case getAbstractFileByPath h (path file) of
        Some targetFile \<Rightarrow>
          (let createLeaf = shouldSplit \<or> pinned h;
               l = (if createLeaf then
                      (if openType (data s) = ''split'' then SplitLeaf
                       else if openType (data s) = ''window'' then WindowLeaf
                       else TabLeaf)
                    else MostRecentLeaf)
           in s\<lparr>trace := trace s @ [OpenFile l targetFile]\<rparr>)
      | None \<Rightarrow>
          (let s1 = s\<lparr>trace := trace s @ [Notice ''Cannot find a file with that name'']\<rparr>;
               s2 = s1\<lparr>data := (data s1)\<lparr>recentFiles :=
                      filter (\<lambda>fp. path fp \<noteq> path file) (recentFiles (data s1))\<rparr>\<rparr>
           in redraw (saveData s2)))"

text \<open>
  \<open>Plugin.loadData()\<close> gives the stored object, or \<open>null\<close> when nothing was stored.
  A stored object has each key or not (\<open>None\<close> is a missing key); the stored
  \<open>maxLength\<close> is a number or \<open>null\<close>. \<open>Object.assign(DEFAULT_DATA, stored)\<close> copies
  the keys that are there over the defaults.
\<close>

record stored =
  stored_recentFiles :: "RecentFileInfo list option"
  stored_omittedPaths :: "string list option"
  stored_maxLength :: "int option option"
  stored_openType :: "string option"

definition assign :: "'a \<Rightarrow> 'a option \<Rightarrow> 'a" where
  "assign target source = (case source of None \<Rightarrow> target | Some v \<Rightarrow> v)"

definition loadData :: "stored option \<Rightarrow> state" where
  "loadData loaded =
     \<lparr>data =
        (case loaded of
           None \<Rightarrow> DEFAULT_DATA
         | Some p \<Rightarrow>
             \<lparr>recentFiles = assign (recentFiles DEFAULT_DATA) (stored_recentFiles p),
              omittedPaths = assign (omittedPaths DEFAULT_DATA) (stored_omittedPaths p),
              maxLength = assign (maxLength DEFAULT_DATA) (stored_maxLength p),
              openType = assign (openType DEFAULT_DATA) (stored_openType p)\<rparr>),
      view = False,
      trace = []\<rparr>"

text \<open>
  \<open>name.replace(/\.[^/.]+$/, '')\<close>: the expression matches a dot followed, up to the
  end of the name, by one or more characters that are neither a slash nor a dot. So the
  dot is the last one of the name, and what follows it is not empty and has no slash.
\<close>

definition trimExtension :: "string \<Rightarrow> string" where
  "trimExtension name =
     (let ext = takeWhile (\<lambda>c. c \<noteq> CHR ''.'') (rev name)
      in if length ext < length name \<and> ext \<noteq> [] \<and> CHR ''/'' \<notin> set ext
         then take (length name - length ext - 1) name
         else name)"

text \<open>
  \<open>Array.prototype.find\<close> gives the first element that satisfies the test, by
  reference: the assignments to \<open>entry.path\<close> and \<open>entry.basename\<close> change the element
  of the array. The reference is the element's index.
\<close>

fun find_ref :: "('a \<Rightarrow> bool) \<Rightarrow> 'a list \<Rightarrow> nat option" where
  "find_ref P [] = None"
| "find_ref P (x # xs) = (if P x then Some 0 else map_option Suc (find_ref P xs))"

text \<open>
  \<open>this.view.redraw()\<close> in the plugin, and \<open>this.plugin.view.redraw()\<close> in the settings
  tab: the redraw when the view is set, the \<open>TypeError\<close> when it is not.
\<close>

definition view_redraw :: "state \<Rightarrow> outcome" where
  "view_redraw s = (if view s then Inr (redraw s) else Inl (TypeError, s))"

text \<open>
  In \<open>handleRename\<close> and \<open>handleDelete\<close> the list is changed first, then the view is
  redrawn, then the data is saved: when the redraw throws, the list is changed and
  \<open>saveData\<close> is not reached.
\<close>

definition handleRename :: "TAbstractFile \<Rightarrow> string \<Rightarrow> state \<Rightarrow> outcome" where
  "handleRename file oldPath s =
     (case find_ref (\<lambda>recentFile. path recentFile = oldPath) (recentFiles (data s)) of
        None \<Rightarrow> Inr s
      | Some i \<Rightarrow>
          (let entry = recentFiles (data s) ! i;
               entry1 = entry\<lparr>path := file_path file\<rparr>;
               entry2 = entry1\<lparr>basename := trimExtension (file_name file)\<rparr>;
               s1 = s\<lparr>data := (data s)\<lparr>recentFiles := (recentFiles (data s))[i := entry2]\<rparr>\<rparr>
           in case view_redraw s1 of
                Inl thrown \<Rightarrow> Inl thrown
              | Inr s2 \<Rightarrow> Inr (saveData s2)))"

definition handleDelete :: "TAbstractFile \<Rightarrow> state \<Rightarrow> outcome" where
  "handleDelete file s =
     (let beforeLen = length (recentFiles (data s));
          s1 = s\<lparr>data := (data s)\<lparr>recentFiles :=
                 filter (\<lambda>recentFile. path recentFile \<noteq> file_path file)
                   (recentFiles (data s))\<rparr>\<rparr>
      in if beforeLen \<noteq> length (recentFiles (data s1))
         then (case view_redraw s1 of
                 Inl thrown \<Rightarrow> Inl thrown
               | Inr s2 \<Rightarrow> Inr (saveData s2))
         else Inr s1)"

text \<open>
  The view's menu entry \<open>Clear list\<close>, and the three handlers of the settings tab. The
  text area's value arrives split at the line breaks, the number field's value arrives
  as \<open>parseInt\<close> returns it (\<open>None\<close> for \<open>NaN\<close>). The \<open>onblur\<close> of the number field
  stores what it parsed and does not save. Both \<open>onblur\<close> handlers end with
  \<open>this.plugin.view.redraw()\<close>; \<open>pruneOmittedFiles\<close> is not awaited, but it has
  filtered the list and entered \<open>saveData\<close> before that redraw.
\<close>

definition clearList :: "state \<Rightarrow> state" where
  "clearList s = redraw (saveData (s\<lparr>data := (data s)\<lparr>recentFiles := []\<rparr>\<rparr>))"

definition omittedPaths_onblur :: "regexp \<Rightarrow> string list \<Rightarrow> state \<Rightarrow> outcome" where
  "omittedPaths_onblur RegExp patterns s =
     view_redraw
       (pruneOmittedFiles RegExp (s\<lparr>data := (data s)\<lparr>omittedPaths := patterns\<rparr>\<rparr>))"

definition maxLength_onblur :: "int option \<Rightarrow> state \<Rightarrow> outcome" where
  "maxLength_onblur parsed s = view_redraw (s\<lparr>data := (data s)\<lparr>maxLength := parsed\<rparr>\<rparr>)"

definition openType_onChange :: "string \<Rightarrow> state \<Rightarrow> state" where
  "openType_onChange v s = saveData (s\<lparr>data := (data s)\<lparr>openType := v\<rparr>\<rparr>)"

text \<open>
  The events the plugin and its view register for. The host builds the view with the
  factory of \<open>onload\<close>, which sets \<open>plugin.view\<close>, and calls the view's \<open>onOpen\<close>,
  which redraws. \<open>RecentFilesListView.load\<close> gives \<open>file-open\<close> to \<open>redraw\<close> and
  \<open>editor-change\<close> to \<open>update\<close>; \<open>RecentFilesPlugin.onload\<close> gives \<open>rename\<close> and
  \<open>delete\<close> of the vault to \<open>handleRename\<close> and \<open>handleDelete\<close>; a click on an entry
  calls \<open>focusFile\<close> with the entry and whether Ctrl or Meta was held. The handlers
  that the view registers, and its menu and its entries, are there only once a view is
  built; the handlers of the vault and of the settings tab are there from \<open>onload\<close> on.

  An error thrown by a handler is not caught by the plugin: the host goes on with the
  next event, and the plugin's state is as the handler left it.
\<close>

definition left_state :: "outcome \<Rightarrow> state" where
  "left_state r = (case r of Inl (thrown, s) \<Rightarrow> s | Inr s \<Rightarrow> s)"

datatype event =
  ViewFactory
  | ViewOpen
  | FileOpen "TFile option"
  | EditorChange "TFile option"
  | VaultRename TAbstractFile string
  | VaultDelete TAbstractFile
  | Click RecentFileInfo bool
  | ClearList
  | OmittedPathsBlur "string list"
  | MaxLengthBlur "int option"
  | OpenTypeChange string

fun handle :: "regexp \<Rightarrow> host \<Rightarrow> event \<Rightarrow> state \<Rightarrow> state" where
  "handle RegExp h ViewFactory s = s\<lparr>view := True\<rparr>"
| "handle RegExp h ViewOpen s = redraw s"
| "handle RegExp h (FileOpen file) s = redraw s"
| "handle RegExp h (EditorChange info_file) s = update h info_file s"
| "handle RegExp h (VaultRename file oldPath) s = left_state (handleRename file oldPath s)"
| "handle RegExp h (VaultDelete file) s = left_state (handleDelete file s)"
| "handle RegExp h (Click file shouldSplit) s = focusFile h file shouldSplit s"
| "handle RegExp h ClearList s = clearList s"
| "handle RegExp h (OmittedPathsBlur patterns) s =
     left_state (omittedPaths_onblur RegExp patterns s)"
| "handle RegExp h (MaxLengthBlur parsed) s = left_state (maxLength_onblur parsed s)"
| "handle RegExp h (OpenTypeChange v) s = openType_onChange v s"

text \<open>Events run to completion one after the other, each with the host as it is then.\<close>

fun run :: "regexp \<Rightarrow> (host \<times> event) list \<Rightarrow> state \<Rightarrow> state" where
  "run RegExp [] s = s"
| "run RegExp ((h, e) # es) s = run RegExp es (handle RegExp h e s)"

section \<open>Predicates of the specification and inputs for examples\<close>

text \<open>A list is sorted by \<open>lastModified\<close> descending.\<close>

definition newest_first :: "RecentFileInfo list \<Rightarrow> bool" where
  "newest_first xs = sorted_wrt (\<lambda>a b. mtime a \<ge> mtime b) xs"

text \<open>\<open>items\<close> is non-empty and \<open>items[0].path == p\<close>.\<close>

definition is_first :: "string \<Rightarrow> RecentFileInfo list \<Rightarrow> bool" where
  "is_first p items = (case items of [] \<Rightarrow> False | first # _ \<Rightarrow> path first = p)"

text \<open>
  An engine to put in the place of the host's \<open>RegExp\<close> in examples. It knows two
  patterns: \<open>(\<close>, which does not compile, and \<open>^daily/\<close>, which tests for that
  prefix; any other pattern compiles and matches nothing.
\<close>

definition example_RegExp :: regexp where
  "example_RegExp pattern =
     (if pattern = ''('' then None
      else if pattern = ''^daily/'' then Some (\<lambda>s. take 6 s = ''daily/'')
      else Some (\<lambda>s. False))"

definition example_patterns :: "string list" where
  "example_patterns = [[], ''('', ''^daily/'']"

definition daily_note :: FilePath where
  "daily_note = \<lparr>path = ''daily/2024-01-01.md'', basename = ''2024-01-01''\<rparr>"

text \<open>A vault of two files, the older one outside \<open>daily/\<close> and the newer one in it.\<close>

definition file_a :: TFile where
  "file_a =
     \<lparr>file_path = ''a.md'', file_name = ''a.md'', file_basename = ''a'', stat_mtime = 10\<rparr>"

definition file_b :: TFile where
  "file_b =
     \<lparr>file_path = ''daily/b.md'', file_name = ''b.md'', file_basename = ''b'',
      stat_mtime = 20\<rparr>"

definition example_host :: host where
  "example_host =
     \<lparr>getFiles = [file_a, file_b],
      getAbstractFileByPath =
        (\<lambda>p. if p = ''a.md'' then Some \<lparr>file_path = ''a.md'', file_name = ''a.md''\<rparr>
             else if p = ''daily/b.md''
               then Some \<lparr>file_path = ''daily/b.md'', file_name = ''b.md''\<rparr>
             else None),
      pinned = False\<rparr>"

definition entry_a :: RecentFileInfo where
  "entry_a = \<lparr>path = ''a.md'', basename = ''a'', mtime = 10\<rparr>"

definition entry_b :: RecentFileInfo where
  "entry_b = \<lparr>path = ''daily/b.md'', basename = ''b'', mtime = 20\<rparr>"

definition entry_gone :: RecentFileInfo where
  "entry_gone = \<lparr>path = ''gone.md'', basename = ''gone'', mtime = 15\<rparr>"

text \<open>A state with three entries and the view built, and no effects so far.\<close>

definition example_state :: state where
  "example_state =
     \<lparr>data = DEFAULT_DATA\<lparr>recentFiles := [entry_b, entry_gone, entry_a]\<rparr>,
      view = True, trace = []\<rparr>"

text \<open>
  The same three entries as they are stored, and the state after loading with nothing
  stored and building the view.
\<close>

definition stored_list :: stored where
  "stored_list =
     \<lparr>stored_recentFiles = Some [entry_b, entry_gone, entry_a], stored_omittedPaths = None,
      stored_maxLength = None, stored_openType = None\<rparr>"

definition fresh_state :: state where
  "fresh_state = handle example_RegExp example_host ViewFactory (loadData None)"

definition renamed_file :: TAbstractFile where
  "renamed_file = \<lparr>file_path = ''notes/c.v2.md'', file_name = ''c.v2.md''\<rparr>"

definition deleted_file :: TAbstractFile where
  "deleted_file = \<lparr>file_path = ''gone.md'', file_name = ''gone.md''\<rparr>"

definition other_file :: TAbstractFile where
  "other_file = \<lparr>file_path = ''other.md'', file_name = ''other.md''\<rparr>"

text \<open>The data written by the \<open>SaveData\<close> effects of a trace, in the order of the writes.\<close>

fun written :: "effect list \<Rightarrow> RecentFilesData list" where
  "written [] = []"
| "written (SaveData d # es) = d # written es"
| "written (e # es) = written es"

text \<open>
  The stored state has no \<open>maxLength\<close>: nothing is stored, or the key is missing, or
  its value is \<open>null\<close>.
\<close>

definition maxLength_unset :: "stored option \<Rightarrow> bool" where
  "maxLength_unset loaded =
     (case loaded of
        None \<Rightarrow> True
      | Some p \<Rightarrow> (case stored_maxLength p of None \<Rightarrow> True | Some v \<Rightarrow> v = None))"

text \<open>The event is the user leaving the length field with a number in it.\<close>

fun enters_number :: "event \<Rightarrow> bool" where
  "enters_number (MaxLengthBlur (Some n)) = True"
| "enters_number e = False"

definition example_stored :: stored where
  "example_stored =
     \<lparr>stored_recentFiles = Some [entry_a], stored_omittedPaths = None,
      stored_maxLength = Some None, stored_openType = None\<rparr>"

definition example_events :: "(host \<times> event) list" where
  "example_events =
     [(example_host, ViewFactory),
      (example_host, EditorChange (Some file_b)),
      (example_host, MaxLengthBlur None),
      (example_host, OpenTypeChange ''split'')]"

definition omitting_state :: state where
  "omitting_state =
     \<lparr>data = DEFAULT_DATA\<lparr>omittedPaths := [''^daily/'']\<rparr>, view = True, trace = []\<rparr>"

definition omitting_events :: "(host \<times> event) list" where
  "omitting_events =
     [(example_host, ViewFactory),
      (example_host, EditorChange (Some file_a)),
      (example_host, OmittedPathsBlur [''^daily/'']),
      (example_host, EditorChange (Some file_b))]"

definition negative_events :: "(host \<times> event) list" where
  "negative_events =
     [(example_host, ViewFactory),
      (example_host, MaxLengthBlur (Some (- 1))),
      (example_host, EditorChange (Some file_a))]"

section \<open>Properties\<close>

subsection \<open>The sort\<close>

lemma set_insert_by: "set (insert_by cmp x xs) = insert x (set xs)"
  by (induction xs) auto

lemma length_insert_by: "length (insert_by cmp x xs) = Suc (length xs)"
  by (induction xs) auto

lemma length_array_sort: "length (array_sort cmp xs) = length xs"
  by (induction xs) (simp_all add: array_sort_def length_insert_by)

lemma set_array_sort: "set (array_sort cmp xs) = set xs"
  by (induction xs) (simp_all add: array_sort_def set_insert_by)

lemma distinct_insert_by:
  "distinct (map f (insert_by cmp x xs)) = (f x \<notin> f ` set xs \<and> distinct (map f xs))"
  by (induction xs) (auto simp: set_insert_by)

lemma distinct_array_sort: "distinct (map f (array_sort cmp xs)) = distinct (map f xs)"
  by (induction xs)
    (simp_all add: array_sort_def distinct_insert_by set_array_sort [unfolded array_sort_def])

lemma newest_first_Nil: "newest_first []"
  by (simp add: newest_first_def)

lemma newest_first_insert_by: "newest_first xs \<Longrightarrow> newest_first (insert_by sortFunc x xs)"
  unfolding newest_first_def
  by (induction xs) (auto simp: set_insert_by sortFunc_def split: if_splits)

lemma newest_first_array_sort: "newest_first (array_sort sortFunc xs)"
  by (induction xs) (simp_all add: array_sort_def newest_first_insert_by newest_first_Nil)

text \<open>
  The sort is stable: the entries of one time stamp keep the order they had.
\<close>

lemma filter_insert_by:
  "newest_first xs \<Longrightarrow>
   filter (\<lambda>y. mtime y = k) (insert_by sortFunc x xs) =
     (if mtime x = k then x # filter (\<lambda>y. mtime y = k) xs
      else filter (\<lambda>y. mtime y = k) xs)"
  unfolding newest_first_def
  by (induction xs) (auto simp: sortFunc_def split: if_splits)

lemma array_sort_stable:
  "filter (\<lambda>y. mtime y = k) (array_sort sortFunc xs) = filter (\<lambda>y. mtime y = k) xs"
proof (induction xs)
  case Nil
  show ?case by (simp add: array_sort_def)
next
  case (Cons x xs)
  have "newest_first (array_sort sortFunc xs)" by (rule newest_first_array_sort)
  then show ?case
    using Cons by (simp add: array_sort_def filter_insert_by)
qed

lemma slice0_take:
  "slice0 xs e = take (nat (if e < 0 then int (length xs) + e else e)) xs"
  by (auto simp: slice0_def Let_def max_def min_def)

subsection \<open>Lists\<close>

lemma list_ex_filter: "list_ex P (filter Q xs) = (\<exists>x\<in>set xs. Q x \<and> P x)"
  by (induction xs) auto

lemma filter_same_length: "length (filter P xs) = length xs \<longleftrightarrow> filter P xs = xs"
proof
  assume l: "length (filter P xs) = length xs"
  have "length (filter P xs) + length (filter (\<lambda>x. \<not> P x) xs) = length xs"
    by (rule sum_length_filter_compl)
  with l have "filter (\<lambda>x. \<not> P x) xs = []" by simp
  then have "\<forall>x\<in>set xs. P x" by (simp add: filter_empty_conv)
  then show "filter P xs = xs" by simp
next
  assume "filter P xs = xs"
  then show "length (filter P xs) = length xs" by simp
qed

lemma find_ref_None: "find_ref P xs = None \<longleftrightarrow> (\<forall>x\<in>set xs. \<not> P x)"
  by (induction xs) auto

lemma find_ref_Some:
  "find_ref P xs = Some i \<longleftrightarrow> i < length xs \<and> P (xs ! i) \<and> (\<forall>j<i. \<not> P (xs ! j))"
proof (induction xs arbitrary: i)
  case Nil
  show ?case by simp
next
  case (Cons x xs)
  show ?case
  proof (cases "P x")
    case True
    then show ?thesis by (cases i) auto
  next
    case False
    show ?thesis
    proof (cases i)
      case 0
      with False show ?thesis by auto
    next
      case (Suc k)
      have "(\<forall>j<Suc k. \<not> P ((x # xs) ! j)) \<longleftrightarrow> (\<forall>j<k. \<not> P (xs ! j))"
        using False by (auto simp: less_Suc_eq_0_disj)
      with False Suc Cons.IH [of k] show ?thesis by auto
    qed
  qed
qed

lemma shouldAddFile_recentFiles:
  "shouldAddFile RegExp (d\<lparr>recentFiles := xs\<rparr>) = shouldAddFile RegExp d"
  by (rule ext) (simp add: shouldAddFile_def)

subsection \<open>The exclusion policy\<close>

text \<open>
  Claim C4. \<open>shouldAddFile\<close> (the specification's \<open>isAllowed\<close>) is false exactly when
  some pattern of the list that is not the empty string compiles and matches the path.
  An empty pattern is ignored, a pattern that does not compile is skipped and neither
  excludes the path nor stops the patterns after it from being tried. The function is
  total: the \<open>SyntaxError\<close> of the constructor is a value of the model, caught inside,
  and the result is a truth value on every input.
\<close>

theorem shouldAddFile_iff:
  "shouldAddFile RegExp d file = False \<longleftrightarrow>
     (\<exists>pattern \<in> set (omittedPaths d). pattern \<noteq> [] \<and>
        (\<exists>test. RegExp pattern = Some test \<and> test (path file)))"
  by (auto simp: shouldAddFile_def fileMatchesRegex_def list_ex_filter split: option.splits)

theorem shouldAddFile_iff_witness:
  "shouldAddFile example_RegExp (DEFAULT_DATA\<lparr>omittedPaths := example_patterns\<rparr>)
        daily_note = False
   \<and> shouldAddFile example_RegExp (DEFAULT_DATA\<lparr>omittedPaths := example_patterns\<rparr>)
        (daily_note\<lparr>path := ''note.md''\<rparr>) = True
   \<and> shouldAddFile example_RegExp (DEFAULT_DATA\<lparr>omittedPaths := [''('']\<rparr>)
        (daily_note\<lparr>path := ''x.md''\<rparr>) = True"
  using
    shouldAddFile_iff [of example_RegExp "DEFAULT_DATA\<lparr>omittedPaths := example_patterns\<rparr>"
      daily_note]
    shouldAddFile_iff [of example_RegExp "DEFAULT_DATA\<lparr>omittedPaths := example_patterns\<rparr>"
      "daily_note\<lparr>path := ''note.md''\<rparr>"]
    shouldAddFile_iff [of example_RegExp "DEFAULT_DATA\<lparr>omittedPaths := [''('']\<rparr>"
      "daily_note\<lparr>path := ''x.md''\<rparr>"]
  by (simp add: example_RegExp_def DEFAULT_DATA_def daily_note_def example_patterns_def)

text \<open>
  Claim C10. \<open>pruneOmittedFiles\<close> (the specification's \<open>pruneExcluded\<close>) leaves exactly
  the entries that pass \<open>shouldAddFile\<close> under the current patterns, each as it was and
  in the order they had, changes no other field, writes the data once, and pruning a
  second time changes nothing more.
\<close>

theorem pruneOmittedFiles_spec:
  "recentFiles (data (pruneOmittedFiles RegExp s)) =
     filter (shouldAddFile RegExp (data s)) (recentFiles (data s))
   \<and> omittedPaths (data (pruneOmittedFiles RegExp s)) = omittedPaths (data s)
   \<and> maxLength (data (pruneOmittedFiles RegExp s)) = maxLength (data s)
   \<and> openType (data (pruneOmittedFiles RegExp s)) = openType (data s)
   \<and> trace (pruneOmittedFiles RegExp s) =
       trace s @ [SaveData (data (pruneOmittedFiles RegExp s))]
   \<and> data (pruneOmittedFiles RegExp (pruneOmittedFiles RegExp s)) =
       data (pruneOmittedFiles RegExp s)"
  by (simp add: pruneOmittedFiles_def saveData_def shouldAddFile_recentFiles)

subsection \<open>Recomputing\<close>

text \<open>
  Claim C9. \<open>updateData\<close> (the specification's \<open>recomputeAll\<close>) run twice on the same
  vault leaves the data that running it once leaves.
\<close>

theorem updateData_idempotent:
  "data (updateData h (updateData h s)) = data (updateData h s)"
  by (simp add: updateData_def saveData_def Let_def maxLength_or_default_def)

subsection \<open>Rename, delete and activation\<close>

text \<open>
  Claim C5. When no entry has the old path, \<open>handleRename\<close> returns with nothing
  changed: a file that was not tracked does not become tracked. Otherwise, in the state
  the handler leaves, the first entry with the old path (the only one, when the paths
  of the list are distinct) has the file's new path and the new name without its
  extension, keeps its time stamp and its place, and every other entry and every other
  field is as before. That holds whether the view is set or not. When the view is set,
  the handler returns, and the view is redrawn and the data written; when it is not,
  the handler throws at the redraw with the entry already renamed, and nothing is
  written.
\<close>

theorem handleRename_spec:
  "((\<forall>rf \<in> set (recentFiles (data s)). path rf \<noteq> oldPath) \<longrightarrow>
      handleRename file oldPath s = Inr s)
   \<and> (\<forall>i. i < length (recentFiles (data s)) \<and> path (recentFiles (data s) ! i) = oldPath
           \<and> (\<forall>j<i. path (recentFiles (data s) ! j) \<noteq> oldPath) \<longrightarrow>
         recentFiles (data (left_state (handleRename file oldPath s))) =
           (recentFiles (data s))[i := \<lparr>path = file_path file,
              basename = trimExtension (file_name file),
              mtime = mtime (recentFiles (data s) ! i)\<rparr>]
         \<and> omittedPaths (data (left_state (handleRename file oldPath s))) =
             omittedPaths (data s)
         \<and> maxLength (data (left_state (handleRename file oldPath s))) = maxLength (data s)
         \<and> openType (data (left_state (handleRename file oldPath s))) = openType (data s)
         \<and> (view s \<longrightarrow>
              handleRename file oldPath s = Inr (left_state (handleRename file oldPath s))
              \<and> trace (left_state (handleRename file oldPath s)) =
                  trace s @ [Redraw, SaveData (data (left_state (handleRename file oldPath s)))])
         \<and> (\<not> view s \<longrightarrow>
              handleRename file oldPath s =
                Inl (TypeError, left_state (handleRename file oldPath s))
              \<and> trace (left_state (handleRename file oldPath s)) = trace s))"
proof (intro conjI impI allI)
  assume "\<forall>rf \<in> set (recentFiles (data s)). path rf \<noteq> oldPath"
  then have "find_ref (\<lambda>recentFile. path recentFile = oldPath) (recentFiles (data s)) = None"
    by (simp add: find_ref_None)
  then show "handleRename file oldPath s = Inr s"
    by (simp add: handleRename_def)
next
  fix i
  assume "i < length (recentFiles (data s)) \<and> path (recentFiles (data s) ! i) = oldPath
           \<and> (\<forall>j<i. path (recentFiles (data s) ! j) \<noteq> oldPath)"
  then have f:
    "find_ref (\<lambda>recentFile. path recentFile = oldPath) (recentFiles (data s)) = Some i"
    by (simp add: find_ref_Some)
  have e: "(recentFiles (data s) ! i)
             \<lparr>path := file_path file, basename := trimExtension (file_name file)\<rparr>
     = \<lparr>path = file_path file, basename = trimExtension (file_name file),
        mtime = mtime (recentFiles (data s) ! i)\<rparr>"
    by simp
  have "recentFiles (data (left_state (handleRename file oldPath s))) =
           (recentFiles (data s))[i := (recentFiles (data s) ! i)
              \<lparr>path := file_path file, basename := trimExtension (file_name file)\<rparr>]"
    using f
    by (simp add: handleRename_def Let_def saveData_def redraw_def view_redraw_def
        left_state_def)
  then show "recentFiles (data (left_state (handleRename file oldPath s))) =
           (recentFiles (data s))[i := \<lparr>path = file_path file,
              basename = trimExtension (file_name file),
              mtime = mtime (recentFiles (data s) ! i)\<rparr>]"
    by (simp only: e)
  show "omittedPaths (data (left_state (handleRename file oldPath s))) = omittedPaths (data s)"
    using f
    by (simp add: handleRename_def Let_def saveData_def redraw_def view_redraw_def
        left_state_def)
  show "maxLength (data (left_state (handleRename file oldPath s))) = maxLength (data s)"
    using f
    by (simp add: handleRename_def Let_def saveData_def redraw_def view_redraw_def
        left_state_def)
  show "openType (data (left_state (handleRename file oldPath s))) = openType (data s)"
    using f
    by (simp add: handleRename_def Let_def saveData_def redraw_def view_redraw_def
        left_state_def)
  {
    assume "view s"
    with f show "handleRename file oldPath s = Inr (left_state (handleRename file oldPath s))"
      by (simp add: handleRename_def Let_def view_redraw_def left_state_def)
    from \<open>view s\<close> f show "trace (left_state (handleRename file oldPath s)) =
        trace s @ [Redraw, SaveData (data (left_state (handleRename file oldPath s)))]"
      by (simp add: handleRename_def Let_def saveData_def redraw_def view_redraw_def
          left_state_def)
  }
  {
    assume "\<not> view s"
    with f show "handleRename file oldPath s =
        Inl (TypeError, left_state (handleRename file oldPath s))"
      by (simp add: handleRename_def Let_def view_redraw_def left_state_def)
    from \<open>\<not> view s\<close> f show "trace (left_state (handleRename file oldPath s)) = trace s"
      by (simp add: handleRename_def Let_def view_redraw_def left_state_def)
  }
qed

theorem handleRename_spec_witness:
  "handleRename renamed_file ''zzz.md'' example_state = Inr example_state
   \<and> recentFiles (data (left_state (handleRename renamed_file ''a.md'' example_state))) =
       [entry_b, entry_gone, \<lparr>path = ''notes/c.v2.md'', basename = ''c.v2'', mtime = 10\<rparr>]
   \<and> trace (left_state (handleRename renamed_file ''a.md'' example_state)) =
       [Redraw,
        SaveData (data (left_state (handleRename renamed_file ''a.md'' example_state)))]
   \<and> recentFiles (data (left_state
        (handleRename renamed_file ''a.md'' (loadData (Some stored_list))))) =
       [entry_b, entry_gone, \<lparr>path = ''notes/c.v2.md'', basename = ''c.v2'', mtime = 10\<rparr>]
   \<and> trace (left_state
        (handleRename renamed_file ''a.md'' (loadData (Some stored_list)))) = []"
proof -
  let ?u = "loadData (Some stored_list)"
  have none: "\<forall>rf \<in> set (recentFiles (data example_state)). path rf \<noteq> ''zzz.md''"
    by (simp add: example_state_def DEFAULT_DATA_def entry_a_def entry_b_def entry_gone_def)
  have found: "2 < length (recentFiles (data example_state))
      \<and> path (recentFiles (data example_state) ! 2) = ''a.md''
      \<and> (\<forall>j<2. path (recentFiles (data example_state) ! j) \<noteq> ''a.md'')"
    by (simp add: example_state_def DEFAULT_DATA_def entry_a_def entry_b_def entry_gone_def
        less_Suc_eq numeral_2_eq_2)
  have v: "view example_state"
    by (simp add: example_state_def)
  have l: "recentFiles (data ?u) = recentFiles (data example_state)"
    by (simp add: loadData_def stored_list_def assign_def example_state_def DEFAULT_DATA_def)
  have nv: "\<not> view ?u" and t0: "trace ?u = []"
    by (simp_all add: loadData_def)
  have found': "2 < length (recentFiles (data ?u))
      \<and> path (recentFiles (data ?u) ! 2) = ''a.md''
      \<and> (\<forall>j<2. path (recentFiles (data ?u) ! j) \<noteq> ''a.md'')"
    using found unfolding l .
  have same: "handleRename renamed_file ''zzz.md'' example_state = Inr example_state"
    using handleRename_spec [of example_state "''zzz.md''" renamed_file] none by blast
  have upd: "recentFiles (data (left_state (handleRename renamed_file ''a.md'' example_state)))
      = (recentFiles (data example_state))[2 := \<lparr>path = file_path renamed_file,
         basename = trimExtension (file_name renamed_file),
         mtime = mtime (recentFiles (data example_state) ! 2)\<rparr>]"
    and tr: "trace (left_state (handleRename renamed_file ''a.md'' example_state)) =
      trace example_state @
        [Redraw,
         SaveData (data (left_state (handleRename renamed_file ''a.md'' example_state)))]"
    using handleRename_spec [of example_state "''a.md''" renamed_file] found v by blast+
  have upd': "recentFiles (data (left_state (handleRename renamed_file ''a.md'' ?u)))
      = (recentFiles (data ?u))[2 := \<lparr>path = file_path renamed_file,
         basename = trimExtension (file_name renamed_file),
         mtime = mtime (recentFiles (data ?u) ! 2)\<rparr>]"
    and tr': "trace (left_state (handleRename renamed_file ''a.md'' ?u)) = trace ?u"
    using handleRename_spec [of ?u "''a.md''" renamed_file] found' nv by blast+
  have ext: "trimExtension (file_name renamed_file) = ''c.v2''"
    by (simp add: trimExtension_def renamed_file_def)
  have r: "(recentFiles (data example_state))[2 := \<lparr>path = file_path renamed_file,
         basename = ''c.v2'', mtime = mtime (recentFiles (data example_state) ! 2)\<rparr>] =
       [entry_b, entry_gone, \<lparr>path = ''notes/c.v2.md'', basename = ''c.v2'', mtime = 10\<rparr>]"
    by (simp add: example_state_def DEFAULT_DATA_def entry_a_def renamed_file_def)
  have te: "trace example_state = []"
    by (simp add: example_state_def)
  show ?thesis
    using same upd tr upd' tr' unfolding ext l r t0 te by simp
qed

text \<open>
  What \<open>handleDelete\<close> does in general. In the state it leaves, the list is the entries
  whose path is not the deleted file's, as they were and in their order, and no other
  field is changed. When the list did not change (so when the path was not in it), the
  handler returns and nothing at all happens. When the list changed and the view is
  set, the view is redrawn and the data written once; when the list changed and the
  view is not set, the handler throws at the redraw and nothing is written.
\<close>

lemma handleDelete_list:
  "recentFiles (data (left_state (handleDelete file s))) =
     filter (\<lambda>rf. path rf \<noteq> file_path file) (recentFiles (data s))
   \<and> omittedPaths (data (left_state (handleDelete file s))) = omittedPaths (data s)
   \<and> maxLength (data (left_state (handleDelete file s))) = maxLength (data s)
   \<and> openType (data (left_state (handleDelete file s))) = openType (data s)"
  by (simp add: handleDelete_def Let_def saveData_def redraw_def view_redraw_def
      left_state_def)

lemma handleDelete_unchanged:
  assumes "filter (\<lambda>rf. path rf \<noteq> file_path file) (recentFiles (data s)) = recentFiles (data s)"
  shows "handleDelete file s = Inr s"
  using assms by (simp add: handleDelete_def Let_def)

lemma handleDelete_absent:
  "\<forall>rf \<in> set (recentFiles (data s)). path rf \<noteq> file_path file \<Longrightarrow> handleDelete file s = Inr s"
  by (rule handleDelete_unchanged) simp

lemma handleDelete_changed:
  assumes "filter (\<lambda>rf. path rf \<noteq> file_path file) (recentFiles (data s)) \<noteq> recentFiles (data s)"
  shows "view s \<Longrightarrow>
      handleDelete file s = Inr (left_state (handleDelete file s))
      \<and> trace (left_state (handleDelete file s)) =
          trace s @ [Redraw, SaveData (data (left_state (handleDelete file s)))]"
    and "\<not> view s \<Longrightarrow>
      handleDelete file s = Inl (TypeError, left_state (handleDelete file s))
      \<and> trace (left_state (handleDelete file s)) = trace s"
proof -
  have l: "length (recentFiles (data s)) \<noteq>
      length (filter (\<lambda>rf. path rf \<noteq> file_path file) (recentFiles (data s)))"
    using assms filter_same_length [of "\<lambda>rf. path rf \<noteq> file_path file" "recentFiles (data s)"]
    by auto
  show "view s \<Longrightarrow>
      handleDelete file s = Inr (left_state (handleDelete file s))
      \<and> trace (left_state (handleDelete file s)) =
          trace s @ [Redraw, SaveData (data (left_state (handleDelete file s)))]"
    using l
    by (simp add: handleDelete_def Let_def saveData_def redraw_def view_redraw_def
        left_state_def)
  show "\<not> view s \<Longrightarrow>
      handleDelete file s = Inl (TypeError, left_state (handleDelete file s))
      \<and> trace (left_state (handleDelete file s)) = trace s"
    using l
    by (simp add: handleDelete_def Let_def view_redraw_def left_state_def)
qed

text \<open>
  Claim C6, evaluated. The plugin has loaded a stored list of three entries and the
  view is not built yet. The file of the second entry is deleted: the handler removes
  the entry and throws the \<open>TypeError\<close> at \<open>this.view.redraw()\<close>, so \<open>saveData\<close> is
  not reached. The list has changed and nothing was written.
\<close>

theorem handleDelete_before_view:
  "recentFiles (data (loadData (Some stored_list))) = [entry_b, entry_gone, entry_a]
   \<and> handleDelete deleted_file (loadData (Some stored_list)) =
       Inl (TypeError,
         (loadData (Some stored_list))
           \<lparr>data := (data (loadData (Some stored_list)))\<lparr>recentFiles := [entry_b, entry_a]\<rparr>\<rparr>)
   \<and> recentFiles (data (handle example_RegExp example_host (VaultDelete deleted_file)
        (loadData (Some stored_list)))) = [entry_b, entry_a]
   \<and> written (trace (handle example_RegExp example_host (VaultDelete deleted_file)
        (loadData (Some stored_list)))) = []"
  by (simp add: handleDelete_def Let_def view_redraw_def left_state_def loadData_def
      stored_list_def assign_def DEFAULT_DATA_def entry_a_def entry_b_def entry_gone_def
      deleted_file_def)

text \<open>
  Claim C7. When the path of the clicked entry no longer resolves in the vault,
  \<open>focusFile\<close> (the specification's \<open>activate\<close>), whatever \<open>shouldSplit\<close> is, tells the
  user with a notice, removes every entry with that path and no other, changes no other
  field, writes the data and redraws the view. It returns a state: nothing is thrown.
\<close>

theorem focusFile_not_found:
  "getAbstractFileByPath h (path file) = None \<Longrightarrow>
   recentFiles (data (focusFile h file shouldSplit s)) =
     filter (\<lambda>fp. path fp \<noteq> path file) (recentFiles (data s))
   \<and> omittedPaths (data (focusFile h file shouldSplit s)) = omittedPaths (data s)
   \<and> maxLength (data (focusFile h file shouldSplit s)) = maxLength (data s)
   \<and> openType (data (focusFile h file shouldSplit s)) = openType (data s)
   \<and> trace (focusFile h file shouldSplit s) =
       trace s @ [Notice ''Cannot find a file with that name'',
                  SaveData (data (focusFile h file shouldSplit s)), Redraw]"
  by (simp add: focusFile_def Let_def saveData_def redraw_def)

theorem focusFile_not_found_witness:
  "getAbstractFileByPath example_host (path entry_gone) = None
   \<and> recentFiles (data (focusFile example_host entry_gone True example_state)) =
       [entry_b, entry_a]
   \<and> trace (focusFile example_host entry_gone True example_state) =
       [Notice ''Cannot find a file with that name'',
        SaveData (data (focusFile example_host entry_gone True example_state)), Redraw]"
proof -
  have h: "getAbstractFileByPath example_host (path entry_gone) = None"
    by (simp add: example_host_def entry_gone_def)
  have "filter (\<lambda>fp. path fp \<noteq> path entry_gone) (recentFiles (data example_state)) =
      [entry_b, entry_a]"
    by (simp add: example_state_def DEFAULT_DATA_def entry_a_def entry_b_def entry_gone_def)
  moreover have "trace example_state = []"
    by (simp add: example_state_def)
  ultimately show ?thesis
    using h focusFile_not_found [OF h, of True example_state] by simp
qed

subsection \<open>What \<open>updateData\<close> computes\<close>

lemma updateData_recentFiles:
  "recentFiles (data (updateData h s)) =
     slice0 (array_sort sortFunc (map file_info (getFiles h))) (maxLength_or_default (data s))"
  by (simp add: updateData_def saveData_def Let_def)

lemma updateData_trace:
  "trace (updateData h s) = trace s @ [Enumerate, SaveData (data (updateData h s))]"
  by (simp add: updateData_def saveData_def Let_def)

lemma updateData_other_fields:
  "omittedPaths (data (updateData h s)) = omittedPaths (data s)
   \<and> maxLength (data (updateData h s)) = maxLength (data s)
   \<and> openType (data (updateData h s)) = openType (data s)"
  by (simp add: updateData_def saveData_def Let_def)

lemma updateData_newest_first: "newest_first (recentFiles (data (updateData h s)))"
  using newest_first_array_sort [of "map file_info (getFiles h)"]
  by (simp add: updateData_recentFiles slice0_take newest_first_def sorted_wrt_take)

lemma updateData_distinct:
  assumes "distinct (map file_path (getFiles h))"
  shows "distinct (map path (recentFiles (data (updateData h s))))"
proof -
  have "map path (map file_info (getFiles h)) = map file_path (getFiles h)"
    by (simp add: file_info_def)
  with assms have "distinct (map path (array_sort sortFunc (map file_info (getFiles h))))"
    by (simp only: distinct_array_sort)
  then show ?thesis
    by (simp add: updateData_recentFiles slice0_take take_map [symmetric] distinct_take
        del: take_map)
qed

lemma updateData_length:
  "0 \<le> maxLength_or_default (data s) \<Longrightarrow>
   length (recentFiles (data (updateData h s))) \<le> nat (maxLength_or_default (data s))"
  by (simp add: updateData_recentFiles slice0_take)

lemma updateData_default:
  "maxLength (data s) = None \<or> maxLength (data s) = Some 0 \<Longrightarrow>
   recentFiles (data (updateData h s)) =
     take 40 (array_sort sortFunc (map file_info (getFiles h)))"
  by (auto simp: updateData_recentFiles slice0_take maxLength_or_default_def
      defaultMaxLength_def)

text \<open>
  Claim C1, evaluated. \<open>updateData\<close> does not call \<open>shouldAddFile\<close>: with the pattern
  \<open>^daily/\<close> in force, the list it computes for the example vault has the entry of
  \<open>daily/b.md\<close>, which \<open>shouldAddFile\<close> rejects. The live sequence shows the same:
  the view is built, an edit fills the list, leaving the patterns field prunes the daily
  note, and the next edit of another file than the first of the list brings it back.
\<close>

theorem updateData_keeps_omitted:
  "recentFiles (data (updateData example_host omitting_state)) = [entry_b, entry_a]
   \<and> shouldAddFile example_RegExp (data (updateData example_host omitting_state)) entry_b
       = False
   \<and> recentFiles (data (run example_RegExp (take 3 omitting_events) (loadData None)))
       = [entry_a]
   \<and> recentFiles (data (run example_RegExp omitting_events (loadData None)))
       = [entry_b, entry_a]"
  by (simp add: updateData_def saveData_def redraw_def update_def Let_def
      omitting_state_def omitting_events_def example_host_def file_a_def file_b_def
      entry_a_def entry_b_def file_info_def array_sort_def sortFunc_def slice0_def
      maxLength_or_default_def defaultMaxLength_def DEFAULT_DATA_def loadData_def
      omittedPaths_onblur_def pruneOmittedFiles_def shouldAddFile_def fileMatchesRegex_def
      example_RegExp_def view_redraw_def left_state_def)

text \<open>
  Claim C3, evaluated. With \<open>maxLength = -1\<close> the list is the sorted enumeration
  without its last entry, not its first 40 entries: \<open>slice(0, -1)\<close> counts from the
  end. The length field's \<open>onblur\<close> stores the negative number it parsed, so the next
  edit computes the list with it.
\<close>

theorem updateData_negative_maxLength:
  "recentFiles (data (updateData example_host
      (example_state\<lparr>data := (data example_state)\<lparr>maxLength := Some (- 1)\<rparr>\<rparr>))) = [entry_b]
   \<and> recentFiles (data (updateData example_host
      (example_state\<lparr>data := (data example_state)\<lparr>maxLength := Some 40\<rparr>\<rparr>)))
       = [entry_b, entry_a]
   \<and> recentFiles (data (run example_RegExp negative_events (loadData None))) = [entry_b]"
  by (simp add: updateData_def saveData_def redraw_def update_def Let_def
      example_state_def negative_events_def example_host_def file_a_def file_b_def
      entry_a_def entry_b_def file_info_def array_sort_def sortFunc_def slice0_def
      maxLength_or_default_def defaultMaxLength_def DEFAULT_DATA_def loadData_def
      maxLength_onblur_def view_redraw_def left_state_def)

subsection \<open>The handlers of \<open>editor-change\<close> and \<open>file-open\<close>\<close>

lemma update_condition:
  "(case recentFiles (data s) of [] \<Rightarrow> False | first # _ \<Rightarrow> file_path file = path first)
     = is_first (file_path file) (recentFiles (data s))"
  by (auto simp: is_first_def split: list.splits)

text \<open>
  Claim C2, as the code has it. The handler of \<open>editor-change\<close> enumerates the vault
  and recomputes exactly when the edited file's path is not the path of the first
  entry of a non-empty list; when it is, the state is unchanged, nothing is enumerated,
  written or redrawn. The handler of \<open>file-open\<close> is \<open>redraw\<close>: it never enumerates
  and leaves the data as it is.
\<close>

theorem update_spec:
  "(is_first (file_path file) (recentFiles (data s)) \<longrightarrow>
      handle RegExp h (EditorChange (Some file)) s = s)
   \<and> (\<not> is_first (file_path file) (recentFiles (data s)) \<longrightarrow>
        handle RegExp h (EditorChange (Some file)) s = redraw (updateData h s)
        \<and> trace (handle RegExp h (EditorChange (Some file)) s) =
            trace s @ [Enumerate, SaveData (data (updateData h s)), Redraw])
   \<and> (Enumerate \<in> set (drop (length (trace s))
          (trace (handle RegExp h (EditorChange (Some file)) s)))
        \<longleftrightarrow> \<not> is_first (file_path file) (recentFiles (data s)))
   \<and> data (handle RegExp h (FileOpen opened) s) = data s
   \<and> trace (handle RegExp h (FileOpen opened) s) = trace s @ [Redraw]"
proof -
  have hit: "is_first (file_path file) (recentFiles (data s)) \<Longrightarrow> update h (Some file) s = s"
    by (simp add: update_def update_condition)
  have miss: "\<not> is_first (file_path file) (recentFiles (data s)) \<Longrightarrow>
      update h (Some file) s = redraw (updateData h s)"
    by (simp add: update_def update_condition)
  have tr: "trace (redraw (updateData h s)) =
      trace s @ [Enumerate, SaveData (data (updateData h s)), Redraw]"
    by (simp add: redraw_def updateData_trace)
  have en: "Enumerate \<in> set (drop (length (trace s)) (trace (update h (Some file) s)))
      \<longleftrightarrow> \<not> is_first (file_path file) (recentFiles (data s))"
  proof (cases "is_first (file_path file) (recentFiles (data s))")
    case True
    then show ?thesis by (simp add: hit)
  next
    case False
    then show ?thesis by (simp add: miss tr)
  qed
  have op: "data (redraw s) = data s" "trace (redraw s) = trace s @ [Redraw]"
    by (simp_all add: redraw_def)
  show ?thesis
    using hit miss tr en op by simp
qed

theorem update_spec_witness:
  "is_first (file_path file_b) (recentFiles (data example_state))
   \<and> handle example_RegExp example_host (EditorChange (Some file_b)) example_state
       = example_state
   \<and> \<not> is_first (file_path file_a) (recentFiles (data example_state))
   \<and> recentFiles (data
        (handle example_RegExp example_host (EditorChange (Some file_a)) example_state))
       = [entry_b, entry_a]
   \<and> trace (handle example_RegExp example_host (EditorChange (Some file_a)) example_state) =
       [Enumerate, SaveData (data (updateData example_host example_state)), Redraw]"
proof -
  have hit: "is_first (file_path file_b) (recentFiles (data example_state))"
    by (simp add: is_first_def example_state_def DEFAULT_DATA_def file_b_def entry_b_def)
  have miss: "\<not> is_first (file_path file_a) (recentFiles (data example_state))"
    by (simp add: is_first_def example_state_def DEFAULT_DATA_def file_a_def entry_b_def)
  have same: "handle example_RegExp example_host (EditorChange (Some file_b)) example_state
       = example_state"
    using update_spec [of file_b example_state example_RegExp example_host] hit by blast
  have re: "handle example_RegExp example_host (EditorChange (Some file_a)) example_state
       = redraw (updateData example_host example_state)"
    and tr: "trace (handle example_RegExp example_host (EditorChange (Some file_a))
        example_state) =
       trace example_state @
         [Enumerate, SaveData (data (updateData example_host example_state)), Redraw]"
    using update_spec [of file_a example_state example_RegExp example_host] miss by blast+
  have l: "recentFiles (data (redraw (updateData example_host example_state)))
      = [entry_b, entry_a]"
    by (simp add: updateData_def saveData_def redraw_def Let_def
      example_state_def example_host_def file_a_def file_b_def
      entry_a_def entry_b_def file_info_def array_sort_def sortFunc_def slice0_def
      maxLength_or_default_def defaultMaxLength_def DEFAULT_DATA_def)
  have t0: "trace example_state = []"
    by (simp add: example_state_def)
  show ?thesis
    using hit miss same l tr unfolding re t0 by simp
qed

text \<open>
  Claim C2 as stated fails for the handler of \<open>file-open\<close>: after loading with nothing
  stored and building the view the list is empty, so the opened file is not its first
  entry, and yet opening a file enumerates nothing and leaves the list empty.
\<close>

theorem file_open_counterexample:
  "\<not> is_first (file_path file_a) (recentFiles (data fresh_state))
   \<and> trace (handle example_RegExp example_host (FileOpen (Some file_a)) fresh_state)
       = [Redraw]
   \<and> Enumerate \<notin> set (trace
        (handle example_RegExp example_host (FileOpen (Some file_a)) fresh_state))
   \<and> recentFiles (data
        (handle example_RegExp example_host (FileOpen (Some file_a)) fresh_state)) = []"
  by (simp add: is_first_def fresh_state_def loadData_def DEFAULT_DATA_def redraw_def)

subsection \<open>The stored \<open>maxLength\<close>\<close>

lemma written_append: "written (xs @ ys) = written xs @ written ys"
  by (induction xs rule: written.induct) simp_all

lemma handle_maxLength:
  "maxLength (data (handle RegExp h e s)) =
     (case e of MaxLengthBlur parsed \<Rightarrow> parsed | _ \<Rightarrow> maxLength (data s))"
  by (cases e)
    (simp_all add: redraw_def update_def updateData_other_fields handleRename_def
      handleDelete_def focusFile_def clearList_def omittedPaths_onblur_def
      pruneOmittedFiles_def maxLength_onblur_def openType_onChange_def saveData_def Let_def
      view_redraw_def left_state_def
      split: option.splits)

lemma handle_written:
  "\<exists>ds. written (trace (handle RegExp h e s)) = written (trace s) @ ds
      \<and> list_all (\<lambda>d. maxLength d = maxLength (data s)) ds"
proof (cases e)
  case (EditorChange info_file)
  then show ?thesis
    by (simp add: update_def redraw_def updateData_trace written_append
        updateData_other_fields)
next
  case (VaultRename renamed oldPath)
  then show ?thesis
    by (simp add: handleRename_def redraw_def saveData_def Let_def written_append
        view_redraw_def left_state_def split: option.splits)
next
  case (Click clicked shouldSplit)
  then show ?thesis
    by (simp add: focusFile_def redraw_def saveData_def Let_def written_append
        split: option.splits)
qed (simp_all add: redraw_def handleDelete_def clearList_def omittedPaths_onblur_def
      pruneOmittedFiles_def maxLength_onblur_def openType_onChange_def saveData_def Let_def
      written_append view_redraw_def left_state_def)

lemma run_unset:
  "\<lbrakk>list_all (\<lambda>(h, e). \<not> enters_number e) es; maxLength (data s) = None;
    list_all (\<lambda>d. maxLength d = None) (written (trace s))\<rbrakk>
   \<Longrightarrow> maxLength (data (run RegExp es s)) = None
       \<and> list_all (\<lambda>d. maxLength d = None) (written (trace (run RegExp es s)))"
proof (induction es arbitrary: s)
  case Nil
  then show ?case by simp
next
  case (Cons he es)
  obtain h e where he: "he = (h, e)" by (cases he)
  from Cons.prems he have ne: "\<not> enters_number e"
    and rest: "list_all (\<lambda>(h, e). \<not> enters_number e) es"
    by simp_all
  have m: "maxLength (data (handle RegExp h e s)) = None"
  proof (cases e)
    case (MaxLengthBlur parsed)
    with ne have "parsed = None" by (cases parsed) simp_all
    with MaxLengthBlur show ?thesis
      using handle_maxLength [of RegExp h e s] by simp
  qed (insert handle_maxLength [of RegExp h e s] Cons.prems(2), simp_all)
  obtain ds where ds: "written (trace (handle RegExp h e s)) = written (trace s) @ ds"
    "list_all (\<lambda>d. maxLength d = maxLength (data s)) ds"
    using handle_written [of RegExp h e s] by blast
  have w: "list_all (\<lambda>d. maxLength d = None) (written (trace (handle RegExp h e s)))"
    using ds Cons.prems(2,3) by simp
  show ?case
    using Cons.IH [OF rest m w] he by simp
qed

text \<open>
  Claim C8. When the stored state has no \<open>maxLength\<close>, the loaded data has none
  either. From there, through any events other than the user entering a number in the
  length field, the data keeps having none, every write of the data writes it without
  one (never with 40), and every recomputation cuts the list at the default, 40.
\<close>

theorem unset_maxLength_retained:
  assumes "maxLength_unset loaded"
    and "list_all (\<lambda>(h, e). \<not> enters_number e) es"
  shows "maxLength (data (loadData loaded)) = None
    \<and> maxLength (data (run RegExp es (loadData loaded))) = None
    \<and> list_all (\<lambda>d. maxLength d = None) (written (trace (run RegExp es (loadData loaded))))
    \<and> recentFiles (data (updateData h (run RegExp es (loadData loaded)))) =
        take 40 (array_sort sortFunc (map file_info (getFiles h)))"
proof -
  have l: "maxLength (data (loadData loaded)) = None"
    using assms(1)
    by (auto simp: maxLength_unset_def loadData_def DEFAULT_DATA_def assign_def
        split: option.splits)
  have t: "list_all (\<lambda>d. maxLength d = None) (written (trace (loadData loaded)))"
    by (simp add: loadData_def)
  have r: "maxLength (data (run RegExp es (loadData loaded))) = None
       \<and> list_all (\<lambda>d. maxLength d = None) (written (trace (run RegExp es (loadData loaded))))"
    by (rule run_unset [OF assms(2) l t])
  then have "recentFiles (data (updateData h (run RegExp es (loadData loaded)))) =
        take 40 (array_sort sortFunc (map file_info (getFiles h)))"
    by (simp add: updateData_default)
  with l r show ?thesis by simp
qed

theorem unset_maxLength_retained_witness:
  "maxLength_unset (Some example_stored)
   \<and> list_all (\<lambda>(h, e). \<not> enters_number e) example_events
   \<and> maxLength (data (run example_RegExp example_events (loadData (Some example_stored))))
       = None
   \<and> length (written (trace
        (run example_RegExp example_events (loadData (Some example_stored))))) = 2
   \<and> list_all (\<lambda>d. maxLength d = None) (written (trace
        (run example_RegExp example_events (loadData (Some example_stored)))))"
proof -
  have u: "maxLength_unset (Some example_stored)"
    by (simp add: maxLength_unset_def example_stored_def)
  have e: "list_all (\<lambda>(h, e). \<not> enters_number e) example_events"
    by (simp add: example_events_def)
  have n: "length (written (trace
        (run example_RegExp example_events (loadData (Some example_stored))))) = 2"
    by (simp add: example_events_def example_stored_def loadData_def assign_def
        update_def updateData_def saveData_def redraw_def Let_def maxLength_onblur_def
        openType_onChange_def file_b_def entry_a_def DEFAULT_DATA_def view_redraw_def
        left_state_def)
  show ?thesis
    using u e n unset_maxLength_retained [OF u e, of example_RegExp example_host]
    by simp
qed

end
